theory Spec2Isabelle
  imports Complex_Main
begin

section \<open>JavaScript numbers and nullable fields\<close>

text \<open>
  A JavaScript number is modelled as an ideal real or \<open>NaN\<close>: rounding and overflow of
  IEEE doubles are not modelled, so \<open>Infinity\<close> never arises from the arithmetic below
  (every division in the modelled code is by a non-zero literal or by a list length
  that is at least one). Arithmetic and \<open>Math.min\<close>/\<open>Math.max\<close> propagate \<open>NaN\<close>;
  every comparison with \<open>NaN\<close> is false.
\<close>

datatype jsnum = Num real | NaN

fun jsAdd :: "jsnum \<Rightarrow> jsnum \<Rightarrow> jsnum" where
  "jsAdd (Num a) (Num b) = Num (a + b)"
| "jsAdd _ _ = NaN"

fun jsSub :: "jsnum \<Rightarrow> jsnum \<Rightarrow> jsnum" where
  "jsSub (Num a) (Num b) = Num (a - b)"
| "jsSub _ _ = NaN"

fun jsMul :: "jsnum \<Rightarrow> jsnum \<Rightarrow> jsnum" where
  "jsMul (Num a) (Num b) = Num (a * b)"
| "jsMul _ _ = NaN"

text \<open>Division by a literal or a length; the divisor is never zero where it is used.\<close>

fun jsDivBy :: "jsnum \<Rightarrow> real \<Rightarrow> jsnum" where
  "jsDivBy (Num a) d = Num (a / d)"
| "jsDivBy NaN d = NaN"

fun jsMin :: "jsnum \<Rightarrow> jsnum \<Rightarrow> jsnum" where
  "jsMin (Num a) (Num b) = Num (min a b)"
| "jsMin _ _ = NaN"

fun jsMax :: "jsnum \<Rightarrow> jsnum \<Rightarrow> jsnum" where
  "jsMax (Num a) (Num b) = Num (max a b)"
| "jsMax _ _ = NaN"

fun jsGt :: "jsnum \<Rightarrow> jsnum \<Rightarrow> bool" where
  "jsGt (Num a) (Num b) = (a > b)"
| "jsGt _ _ = False"

fun jsGe :: "jsnum \<Rightarrow> jsnum \<Rightarrow> bool" where
  "jsGe (Num a) (Num b) = (a \<ge> b)"
| "jsGe _ _ = False"

fun jsLt :: "jsnum \<Rightarrow> jsnum \<Rightarrow> bool" where
  "jsLt (Num a) (Num b) = (a < b)"
| "jsLt _ _ = False"

fun jsLe :: "jsnum \<Rightarrow> jsnum \<Rightarrow> bool" where
  "jsLe (Num a) (Num b) = (a \<le> b)"
| "jsLe _ _ = False"

text \<open>
  A raw numeric field of a decision row, seen through \<open>safeNum\<close>: the value is
  \<open>null\<close>, \<open>undefined\<close> or the empty string (\<open>FAbsent\<close>), or \<open>Number(v)\<close> is not
  finite (\<open>FNonFinite\<close>: an unparseable string, \<open>NaN\<close>, an infinity), or
  \<open>Number(v)\<close> is the finite number \<open>x\<close> (\<open>FNum x\<close>). The type covers every
  raw value that \<open>Number\<close> converts, so every JSON scalar; an object on which the
  conversion itself throws is outside it.
\<close>

datatype field = FAbsent | FNonFinite | FNum real

fun safeNum :: "field \<Rightarrow> real option" where
  "safeNum FAbsent = None"
| "safeNum FNonFinite = None"
| "safeNum (FNum n) = Some n"


section \<open>Decision rows (generate-capacity-labels.mjs)\<close>

text \<open>
  The fields of a decision row that label synthesis reads. \<open>decisionTs\<close> holds the
  value of \<open>new Date(row.decisionTs).getTime()\<close>: epoch milliseconds, or \<open>NaN\<close> for
  a timestamp that does not parse. An expiry field is \<open>None\<close> when the raw value is
  falsy and otherwise holds \<open>new Date(value).getTime()\<close>. Timestamps are JSON
  scalars (strings in the dataset), which \<open>new Date\<close> always accepts.
\<close>

record row =
  decisionTs :: jsnum
  expectedEdgeAtDecision :: field
  targetContractsAtDecision :: field
  minKernelContractsAtDecision :: field
  leg1ExpiresAt :: "jsnum option"
  leg2ExpiresAt :: "jsnum option"
  oppLeg1ExpiresAt :: "jsnum option"
  oppLeg2ExpiresAt :: "jsnum option"

definition MAX_MODEL_WINDOW_MS :: real where
  "MAX_MODEL_WINDOW_MS = 7 * 24 * 60 * 60 * 1000"

definition LATE_WINDOW_HOURS :: real where
  "LATE_WINDOW_HOURS = 24"

definition NEAR_RESOLUTION_HOURS :: real where
  "NEAR_RESOLUTION_HOURS = 6"

datatype phase = T_7d_3d | T_3d_1d | T_24h_6h | T_6h_1h | T_1h_close

record phaseBounds =
  phaseKey :: phase
  minHours :: real
  maxHours :: real

definition RESOLUTION_PHASES :: "phaseBounds list" where
  "RESOLUTION_PHASES =
    [\<lparr>phaseKey = T_7d_3d, minHours = 72, maxHours = 168\<rparr>,
     \<lparr>phaseKey = T_3d_1d, minHours = 24, maxHours = 72\<rparr>,
     \<lparr>phaseKey = T_24h_6h, minHours = 6, maxHours = 24\<rparr>,
     \<lparr>phaseKey = T_6h_1h, minHours = 1, maxHours = 6\<rparr>,
     \<lparr>phaseKey = T_1h_close, minHours = 0, maxHours = 1\<rparr>]"

fun POLICY_WINDOW_HOURS_BY_PHASE :: "phase \<Rightarrow> real" where
  "POLICY_WINDOW_HOURS_BY_PHASE T_7d_3d = 24"
| "POLICY_WINDOW_HOURS_BY_PHASE T_3d_1d = 12"
| "POLICY_WINDOW_HOURS_BY_PHASE T_24h_6h = 6"
| "POLICY_WINDOW_HOURS_BY_PHASE T_6h_1h = 1"
| "POLICY_WINDOW_HOURS_BY_PHASE T_1h_close = 0.5"

text \<open>
  \<open>resolveCapacity\<close>: the two candidate fields through \<open>safeNum\<close>, those that are
  non-null and positive kept, \<open>null\<close> when none is left, else \<open>Math.min\<close> of them.
\<close>

definition resolveCapacity :: "row \<Rightarrow> real option" where
  "resolveCapacity r =
    (let candidates =
           filter (\<lambda>x. 0 < x)
             (List.map_filter safeNum
                [targetContractsAtDecision r, minKernelContractsAtDecision r])
     in if candidates = [] then None else Some (Min (set candidates)))"

text \<open>
  The resolved capacity as the specification words it: the minimum of the candidate
  capacities that are positive finite numbers, \<open>null\<close> when there is none.
\<close>

definition positiveCandidates :: "row \<Rightarrow> real set" where
  "positiveCandidates r =
    {x. (safeNum (targetContractsAtDecision r) = Some x
         \<or> safeNum (minKernelContractsAtDecision r) = Some x) \<and> 0 < x}"

definition resolvedCapacitySpec :: "row \<Rightarrow> real option" where
  "resolvedCapacitySpec r =
    (if positiveCandidates r = {} then None else Some (Min (positiveCandidates r)))"

text \<open>
  \<open>parseResolutionTs\<close>: the truthy expiry fields, parsed, the finite ones kept;
  \<open>null\<close> when none is left, else the earliest.
\<close>

fun finiteTs :: "jsnum \<Rightarrow> real option" where
  "finiteTs (Num t) = Some t"
| "finiteTs NaN = None"

definition parseResolutionTs :: "row \<Rightarrow> real option" where
  "parseResolutionTs r =
    (let candidates =
           List.map_filter finiteTs
             (List.map_filter id
                [leg1ExpiresAt r, leg2ExpiresAt r, oppLeg1ExpiresAt r, oppLeg2ExpiresAt r])
     in if candidates = [] then None else Some (Min (set candidates)))"

text \<open>
  \<open>resolvePhaseKey\<close>: \<open>null\<close> for a \<open>null\<close> time to resolution, else the key of
  the first table entry with \<open>minHours \<le> ttrHours < maxHours\<close>, \<open>null\<close> when
  \<open>find\<close> finds none.
\<close>

definition resolvePhaseKey :: "jsnum option \<Rightarrow> phase option" where
  "resolvePhaseKey ttrHours =
    (case ttrHours of
       None \<Rightarrow> None
     | Some h \<Rightarrow>
         map_option phaseKey
           (find (\<lambda>p. jsGe h (Num (minHours p)) \<and> jsLt h (Num (maxHours p)))
              RESOLUTION_PHASES))"

text \<open>
  \<open>resolvePolicyWindowHours\<close>: the table entry of a known phase; without a phase,
  24 hours when the time to resolution is \<open>null\<close>, else a quarter of it clipped to
  [0.5, 24].
\<close>

definition resolvePolicyWindowHours :: "phase option \<Rightarrow> jsnum option \<Rightarrow> jsnum" where
  "resolvePolicyWindowHours phaseKeyNow ttrHoursNow =
    (case phaseKeyNow of
       Some k \<Rightarrow> Num (POLICY_WINDOW_HOURS_BY_PHASE k)
     | None \<Rightarrow>
        (case ttrHoursNow of
           None \<Rightarrow> Num 24
         | Some h \<Rightarrow> jsMax (Num 0.5) (jsMin (Num 24) (jsDivBy h 4))))"

section \<open>Label synthesis (generate-capacity-labels.mjs)\<close>

text \<open>
  Reading \<open>seq[idx]\<close> past the end of the series gives \<open>undefined\<close>, and the first
  property access on it throws a \<open>TypeError\<close>.
\<close>

datatype jsError = TypeError

text \<open>The test \<open>best === null || v > best\<close> that guards every best-so-far update.\<close>

fun improvesOn :: "real \<Rightarrow> real option \<Rightarrow> bool" where
  "improvesOn v None = True"
| "improvesOn v (Some best) = (v > best)"

text \<open>
  The scan \<open>for (j = idx + 1; j < seq.length; j++) { if (tj > endTs) break; push }\<close>:
  the rows after \<open>idx\<close> up to the first one later than \<open>endTs\<close>.
\<close>

definition scanUntil :: "row list \<Rightarrow> nat \<Rightarrow> jsnum \<Rightarrow> row list" where
  "scanUntil seq idx endTs =
    takeWhile (\<lambda>r. \<not> jsGt (decisionTs r) endTs) (drop (idx + 1) seq)"

subsection \<open>Resolution-anchored label\<close>

text \<open>The best-so-far variables of the candidate loop, all \<open>null\<close> at the start.\<close>

record resAcc =
  bestEdge7d :: "real option"
  bestEdgeTs :: "jsnum option"
  bestCapAdj7d :: "real option"
  bestCapAdjTs :: "jsnum option"
  bestFillRatio7d :: "real option"
  bestFutureCapacity7d :: "real option"
  bestLateCapAdj :: "real option"
  bestLateFillRatio :: "real option"
  bestNearResCapAdj :: "real option"
  bestPolicyWindowCapAdj :: "real option"
  bestPolicyWindowFillRatio :: "real option"
  bestPolicyWindowTs :: "jsnum option"

definition resAcc0 :: resAcc where
  "resAcc0 =
    \<lparr>bestEdge7d = None, bestEdgeTs = None, bestCapAdj7d = None, bestCapAdjTs = None,
     bestFillRatio7d = None, bestFutureCapacity7d = None, bestLateCapAdj = None,
     bestLateFillRatio = None, bestNearResCapAdj = None, bestPolicyWindowCapAdj = None,
     bestPolicyWindowFillRatio = None, bestPolicyWindowTs = None\<rparr>"

record resLabel =
  timeToResolutionHoursNow :: "jsnum option"
  phaseNow :: "phase option"
  edgeUplift7d :: real
  improvesEdge7d :: bool
  bestFutureEdge7d :: real
  minutesToBestEdge7d :: "jsnum option"
  nowCapacityContracts :: "real option"
  bestFutureCapacityContracts7d :: "real option"
  capacityChangeContracts7d :: "real option"
  capacityAdjustedUplift7d :: "real option"
  improvesCapacityAdjusted7d :: "bool option"
  minutesToBestCapacityAdjusted7d :: "jsnum option"
  bestFillRatioAtNowSize7d :: "real option"
  bestLateWindowCapacityAdjustedUplift :: "real option"
  bestLateWindowFillRatioAtNowSize :: "real option"
  enterEarlyBetterThanLate :: "bool option"
  nearResolutionCapacityAdjustedUplift :: "real option"
  policyWindowHours :: jsnum
  deltaNetPnlPolicyWindowAtNowSize :: "real option"
  buyNowBeatsWaitWindow :: "bool option"
  bestWaitFillRatioPolicyWindowAtNowSize :: "real option"
  minutesToBestPolicyWindow :: "jsnum option"
  labelCensoredPolicyWindow :: bool

text \<open>Hours from a timestamp to the resolution timestamp; \<open>null\<close> without one.\<close>

definition ttrHoursAt :: "real option \<Rightarrow> jsnum \<Rightarrow> jsnum option" where
  "ttrHoursAt resolutionTs tsMs =
    (case resolutionTs of
       None \<Rightarrow> None
     | Some rt \<Rightarrow> Some (jsDivBy (jsSub (Num rt) tsMs) (60 * 60 * 1000)))"

text \<open>\<open>cTtrHours !== null && cTtrHours <= bound\<close>.\<close>

fun withinHours :: "jsnum option \<Rightarrow> real \<Rightarrow> bool" where
  "withinHours None bound = False"
| "withinHours (Some h) bound = jsLe h (Num bound)"

text \<open>
  One iteration of \<open>for (const c of candidates)\<close>. A candidate without an edge is
  skipped; the capacity-adjusted trackers move only when both capacities are known and
  the capacity now is positive.
\<close>

definition resStep :: "real \<Rightarrow> real option \<Rightarrow> real option \<Rightarrow> jsnum \<Rightarrow> resAcc \<Rightarrow> row \<Rightarrow> resAcc" where
  "resStep nowEdge nowCapacity resolutionTs policyWindowEndTs acc c =
    (let cEdgeOpt = safeNum (expectedEdgeAtDecision c);
         cCapOpt = resolveCapacity c;
         cTsMs = decisionTs c;
         cTtrHours = ttrHoursAt resolutionTs cTsMs
     in case cEdgeOpt of
          None \<Rightarrow> acc
        | Some cEdge \<Rightarrow>
           (let a1 = (if improvesOn cEdge (bestEdge7d acc)
                      then acc\<lparr>bestEdge7d := Some cEdge, bestEdgeTs := Some cTsMs\<rparr>
                      else acc);
                a2 = (case cCapOpt of
                        None \<Rightarrow> a1
                      | Some cCap \<Rightarrow>
                          if improvesOn cCap (bestFutureCapacity7d a1)
                          then a1\<lparr>bestFutureCapacity7d := Some cCap\<rparr>
                          else a1)
            in case (nowCapacity, cCapOpt) of
                 (Some nowCap, Some cCap) \<Rightarrow>
                   if nowCap > 0 then
                     (let fillable = min nowCap cCap;
                          fillRatio = fillable / nowCap;
                          currentProfit = nowEdge * nowCap;
                          futureProfit = cEdge * fillable;
                          uplift = futureProfit - currentProfit;
                          a3 = (if improvesOn uplift (bestCapAdj7d a2)
                                then a2\<lparr>bestCapAdj7d := Some uplift,
                                        bestCapAdjTs := Some cTsMs,
                                        bestFillRatio7d := Some fillRatio\<rparr>
                                else a2);
                          a4 = (if withinHours cTtrHours LATE_WINDOW_HOURS
                                   \<and> improvesOn uplift (bestLateCapAdj a3)
                                then a3\<lparr>bestLateCapAdj := Some uplift,
                                        bestLateFillRatio := Some fillRatio\<rparr>
                                else a3);
                          a5 = (if withinHours cTtrHours NEAR_RESOLUTION_HOURS
                                   \<and> improvesOn uplift (bestNearResCapAdj a4)
                                then a4\<lparr>bestNearResCapAdj := Some uplift\<rparr>
                                else a4)
                      in if jsLe cTsMs policyWindowEndTs
                            \<and> improvesOn uplift (bestPolicyWindowCapAdj a5)
                         then a5\<lparr>bestPolicyWindowCapAdj := Some uplift,
                                 bestPolicyWindowFillRatio := Some fillRatio,
                                 bestPolicyWindowTs := Some cTsMs\<rparr>
                         else a5)
                   else a2
               | _ \<Rightarrow> a2))"

text \<open>\<open>ts === null ? null : (new Date(ts).getTime() - nowTsMs) / (60 * 1000)\<close>.\<close>

definition minutesFrom :: "jsnum \<Rightarrow> jsnum option \<Rightarrow> jsnum option" where
  "minutesFrom nowTsMs ts = map_option (\<lambda>t. jsDivBy (jsSub t nowTsMs) (60 * 1000)) ts"

definition resWindowEndTs :: "jsnum \<Rightarrow> real option \<Rightarrow> jsnum" where
  "resWindowEndTs nowTsMs resolutionTs =
    (case resolutionTs of
       None \<Rightarrow> jsAdd nowTsMs (Num MAX_MODEL_WINDOW_MS)
     | Some rt \<Rightarrow> jsMin (Num rt) (jsAdd nowTsMs (Num MAX_MODEL_WINDOW_MS)))"

text \<open>The candidates of the resolution-anchored label: the scan up to the window end.\<close>

definition resCandidates :: "row list \<Rightarrow> nat \<Rightarrow> real option \<Rightarrow> row list" where
  "resCandidates seq idx resolutionTs =
    scanUntil seq idx (resWindowEndTs (decisionTs (seq ! idx)) resolutionTs)"

definition buildResolutionAnchoredLabels ::
    "row list \<Rightarrow> nat \<Rightarrow> real option \<Rightarrow> jsError + resLabel option" where
  "buildResolutionAnchoredLabels seq idx resolutionTs =
    (if length seq \<le> idx then Inl TypeError
     else
      (let now = seq ! idx;
           nowEdgeOpt = safeNum (expectedEdgeAtDecision now);
           nowCapacity = resolveCapacity now;
           nowTsMs = decisionTs now;
           windowEndTs = resWindowEndTs nowTsMs resolutionTs;
           candidates = resCandidates seq idx resolutionTs
       in if candidates = [] then Inr None
          else case nowEdgeOpt of
            None \<Rightarrow> Inr None
          | Some nowEdge \<Rightarrow>
              (let ttrHoursNow = ttrHoursAt resolutionTs nowTsMs;
                   phaseNowKey = resolvePhaseKey ttrHoursNow;
                   policyHours = resolvePolicyWindowHours phaseNowKey ttrHoursNow;
                   policyWindowEndTs =
                     jsMin windowEndTs
                       (jsAdd nowTsMs (jsMul policyHours (Num (60 * 60 * 1000))));
                   acc = foldl (resStep nowEdge nowCapacity resolutionTs policyWindowEndTs)
                           resAcc0 candidates
               in case bestEdge7d acc of
                    None \<Rightarrow> Inr None
                  | Some bestEdge \<Rightarrow>
                     Inr (Some
                       \<lparr>timeToResolutionHoursNow = ttrHoursNow,
                        phaseNow = phaseNowKey,
                        edgeUplift7d = bestEdge - nowEdge,
                        improvesEdge7d = (bestEdge - nowEdge > 0),
                        bestFutureEdge7d = bestEdge,
                        minutesToBestEdge7d = minutesFrom nowTsMs (bestEdgeTs acc),
                        nowCapacityContracts = nowCapacity,
                        bestFutureCapacityContracts7d = bestFutureCapacity7d acc,
                        capacityChangeContracts7d =
                          (case (nowCapacity, bestFutureCapacity7d acc) of
                             (Some nc, Some fc) \<Rightarrow> Some (fc - nc)
                           | _ \<Rightarrow> None),
                        capacityAdjustedUplift7d = bestCapAdj7d acc,
                        improvesCapacityAdjusted7d =
                          map_option (\<lambda>u. u > 0) (bestCapAdj7d acc),
                        minutesToBestCapacityAdjusted7d =
                          minutesFrom nowTsMs (bestCapAdjTs acc),
                        bestFillRatioAtNowSize7d = bestFillRatio7d acc,
                        bestLateWindowCapacityAdjustedUplift = bestLateCapAdj acc,
                        bestLateWindowFillRatioAtNowSize = bestLateFillRatio acc,
                        enterEarlyBetterThanLate =
                          map_option (\<lambda>u. u \<le> 0) (bestLateCapAdj acc),
                        nearResolutionCapacityAdjustedUplift = bestNearResCapAdj acc,
                        policyWindowHours = policyHours,
                        deltaNetPnlPolicyWindowAtNowSize = bestPolicyWindowCapAdj acc,
                        buyNowBeatsWaitWindow =
                          (case bestPolicyWindowCapAdj acc of
                             None \<Rightarrow> None
                           | Some d \<Rightarrow> Some (d \<le> 0)),
                        bestWaitFillRatioPolicyWindowAtNowSize =
                          bestPolicyWindowFillRatio acc,
                        minutesToBestPolicyWindow =
                          minutesFrom nowTsMs (bestPolicyWindowTs acc),
                        labelCensoredPolicyWindow =
                          (bestPolicyWindowCapAdj acc = None)\<rparr>))))"

section \<open>Prepared rows and decision rewards (training and backtest scripts)\<close>

text \<open>
  A row as \<open>prepareRows\<close> leaves it, with the fields the code below reads:
  \<open>_decisionTsMs\<close> (finite, rows with another timestamp are dropped), \<open>_regTarget\<close>
  (\<open>safeNum\<close> of the policy-window delta), \<open>_censored\<close> and \<open>_segmentKey\<close>.
  The feature fields are read only by \<open>buildVector\<close>, inside the fitting of the
  classifier, which the walk-forward window below takes as a parameter.
\<close>

record prow =
  decisionTsMs :: real
  regTarget :: "real option"
  censored :: bool
  segmentKey :: string

text \<open>In \<open>a + b\<close> with a number \<open>a\<close>, a \<open>null\<close> \<open>b\<close> counts as 0.\<close>

fun nullAsZero :: "real option \<Rightarrow> real" where
  "nullAsZero None = 0"
| "nullAsZero (Some v) = v"

text \<open>\<open>mean\<close>: \<open>null\<close> for an empty array, else \<open>reduce((a, b) => a + b, 0) / length\<close>.\<close>

definition mean :: "real option list \<Rightarrow> real option" where
  "mean values =
    (if values = [] then None
     else Some (sum_list (map nullAsZero values) / real (length values)))"

text \<open>
  \<open>decisionPnl\<close> of the walk-forward backtest and \<open>decisionPnL\<close> of the robust
  trainer are the same function. \<open>probs[i]\<close> past the end is \<open>undefined\<close>, and
  \<open>undefined >= threshold\<close> is false.
\<close>

record pnl =
  meanRelativePnl :: "real option"
  totalRelativePnl :: real
  buyRate :: "real option"

definition pnlRewards :: "prow list \<Rightarrow> real list \<Rightarrow> real \<Rightarrow> real option list" where
  "pnlRewards rs probs threshold =
    map (\<lambda>(i, r). if i < length probs \<and> probs ! i \<ge> threshold then Some 0 else regTarget r)
      (enumerate 0 rs)"

definition decisionPnl :: "prow list \<Rightarrow> real list \<Rightarrow> real \<Rightarrow> pnl" where
  "decisionPnl rs probs threshold =
    (let rewards = pnlRewards rs probs threshold
     in \<lparr>meanRelativePnl = mean rewards,
         totalRelativePnl = sum_list (map nullAsZero rewards),
         buyRate = mean (map (\<lambda>p. Some (if p \<ge> threshold then 1 else 0)) probs)\<rparr>)"

subsection \<open>Threshold tuning\<close>

definition thresholdGrid :: "real list" where
  "thresholdGrid = [0.35, 0.4, 0.45, 0.5, 0.55, 0.6, 0.65]"

text \<open>
  The grid mapped to \<open>{threshold, ...decisionPnl(...)}\<close> (a pair here) and sorted with
  the comparator \<open>(a, b) => b.mean - a.mean\<close>, in which a \<open>null\<close> mean counts as 0.
  \<open>Array.prototype.sort\<close> is stable and the comparator is a total preorder on reals, so
  the result is the stable sort by descending mean, which \<open>sort_key\<close> on the negated
  mean computes.
\<close>

definition tuningTable :: "prow list \<Rightarrow> real list \<Rightarrow> (real \<times> pnl) list" where
  "tuningTable rs probs =
    sort_key (\<lambda>e. - nullAsZero (meanRelativePnl (snd e)))
      (map (\<lambda>t. (t, decisionPnl rs probs t)) thresholdGrid)"

text \<open>\<open>tuning[0].threshold\<close>; on an empty array the property access would throw.\<close>

definition tunedThreshold :: "prow list \<Rightarrow> real list \<Rightarrow> jsError + real" where
  "tunedThreshold rs probs =
    (case tuningTable rs probs of
       [] \<Rightarrow> Inl TypeError
     | e # _ \<Rightarrow> Inr (fst e))"

subsection \<open>Decision evaluation\<close>

datatype decision = buy_now | wait

record evaluation =
  evalThreshold :: real
  evalRows :: nat
  evalBuyRate :: "real option"
  evalWaitRate :: "real option"
  meanRelativePnlVsAlwaysBuyNow :: "real option"
  totalRelativePnlVsAlwaysBuyNow :: real
  meanOracleRelativePnlVsAlwaysBuyNow :: "real option"
  totalOracleRelativePnlVsAlwaysBuyNow :: real

text \<open>
  \<open>evaluate\<close> (backtest-robust-models.mjs). \<open>decisions\<close> has one entry per
  probability; \<open>decisions[i]\<close> past its end is \<open>undefined\<close>, which is not
  \<open>"buy_now"\<close>. \<open>Math.max(0, null)\<close> is 0.
\<close>

definition evaluateDecisions :: "real list \<Rightarrow> real \<Rightarrow> decision list" where
  "evaluateDecisions probs threshold =
    map (\<lambda>p. if p \<ge> threshold then buy_now else wait) probs"

definition evaluateRewards :: "prow list \<Rightarrow> decision list \<Rightarrow> real option list" where
  "evaluateRewards rs decisions =
    map (\<lambda>(i, r). if i < length decisions \<and> decisions ! i = buy_now then Some 0
                  else regTarget r)
      (enumerate 0 rs)"

definition rateOf :: "decision \<Rightarrow> decision list \<Rightarrow> real option" where
  "rateOf d decisions = mean (map (\<lambda>x. Some (if x = d then 1 else 0)) decisions)"

definition evaluate :: "prow list \<Rightarrow> real list \<Rightarrow> real \<Rightarrow> evaluation" where
  "evaluate rs probs threshold =
    (let decisions = evaluateDecisions probs threshold;
         rewards = evaluateRewards rs decisions;
         oracle = map (\<lambda>r. Some (max 0 (nullAsZero (regTarget r)))) rs
     in \<lparr>evalThreshold = threshold,
         evalRows = length rs,
         evalBuyRate = rateOf buy_now decisions,
         evalWaitRate = rateOf wait decisions,
         meanRelativePnlVsAlwaysBuyNow = mean rewards,
         totalRelativePnlVsAlwaysBuyNow = sum_list (map nullAsZero rewards),
         meanOracleRelativePnlVsAlwaysBuyNow = mean oracle,
         totalOracleRelativePnlVsAlwaysBuyNow = sum_list (map nullAsZero oracle)\<rparr>)"

text \<open>
  \<open>evaluateDecision\<close> (the baseline backtest). One decision per row; a row with a
  \<open>null\<close> target has a \<open>null\<close> reward, and \<open>null\<close> rewards are filtered out before
  the mean and the total.
\<close>

definition evaluateDecisionDecisions :: "prow list \<Rightarrow> real list \<Rightarrow> real \<Rightarrow> decision list" where
  "evaluateDecisionDecisions rs probs threshold =
    map (\<lambda>(i, r). if i < length probs \<and> probs ! i \<ge> threshold then buy_now else wait)
      (enumerate 0 rs)"

definition evaluateDecisionRewards :: "prow list \<Rightarrow> decision list \<Rightarrow> real option list" where
  "evaluateDecisionRewards rs decisions =
    map (\<lambda>(i, r). case regTarget r of
                    None \<Rightarrow> None
                  | Some delta \<Rightarrow> if decisions ! i = buy_now then Some 0 else Some delta)
      (enumerate 0 rs)"

definition evaluateDecision :: "prow list \<Rightarrow> real list \<Rightarrow> real \<Rightarrow> evaluation" where
  "evaluateDecision rs probs threshold =
    (let decisions = evaluateDecisionDecisions rs probs threshold;
         rewards = evaluateDecisionRewards rs decisions;
         oracleRewards = map (\<lambda>r. map_option (max 0) (regTarget r)) rs;
         validRewards = filter (\<lambda>x. x \<noteq> None) rewards;
         validOracle = filter (\<lambda>x. x \<noteq> None) oracleRewards
     in \<lparr>evalThreshold = threshold,
         evalRows = length rs,
         evalBuyRate = rateOf buy_now decisions,
         evalWaitRate = rateOf wait decisions,
         meanRelativePnlVsAlwaysBuyNow = mean validRewards,
         totalRelativePnlVsAlwaysBuyNow = sum_list (map nullAsZero validRewards),
         meanOracleRelativePnlVsAlwaysBuyNow = mean validOracle,
         totalOracleRelativePnlVsAlwaysBuyNow = sum_list (map nullAsZero validOracle)\<rparr>)"

text \<open>
  The number the tuning comparator sees for a threshold: the validation mean relative
  PnL, a \<open>null\<close> mean (no validation rows) counting as 0.
\<close>

definition tuningScore :: "prow list \<Rightarrow> real list \<Rightarrow> real \<Rightarrow> real" where
  "tuningScore rs probs t = nullAsZero (meanRelativePnl (decisionPnl rs probs t))"

section \<open>Walk-forward backtest\<close>

text \<open>The filter \<open>!r._censored && r._regTarget !== null\<close>.\<close>

definition usable :: "prow \<Rightarrow> bool" where
  "usable r = (\<not> censored r \<and> regTarget r \<noteq> None)"

text \<open>\<open>xs.slice(a, b)\<close> for non-negative \<open>a\<close> and \<open>b\<close>.\<close>

definition jsSlice :: "'a list \<Rightarrow> nat \<Rightarrow> nat \<Rightarrow> 'a list" where
  "jsSlice xs a b = take (b - a) (drop a xs)"

text \<open>
  The result of one window: the tuned threshold, the populated row counts, the best
  validation mean and the test decision metrics (spread into the object in the source,
  one field here).
\<close>

record windowResult =
  threshold :: real
  trainRows :: nat
  validRows :: nat
  testRows :: nat
  validBestMeanRelativePnl :: "real option"
  testDecision :: pnl

text \<open>
  \<open>runWindow\<close>. The three slices are cut by position and filtered to usable rows; a
  window with fewer than 200/50/50 of them returns \<open>null\<close> before anything is fitted.
  \<open>fitProb train valid\<close> stands for the fitted, calibrated classifier
  \<open>predictProb\<close>: schema, scaler, ridge and logistic training, segment models and
  Platt calibration, all functions of the two slices alone.
\<close>

definition runWindow ::
    "(prow list \<Rightarrow> prow list \<Rightarrow> prow \<Rightarrow> real) \<Rightarrow> prow list \<Rightarrow> nat \<Rightarrow> nat \<Rightarrow> nat
      \<Rightarrow> jsError + windowResult option" where
  "runWindow fitProb windowRows trainCount validCount testCount =
    (let train = filter usable (jsSlice windowRows 0 trainCount);
         valid = filter usable (jsSlice windowRows trainCount (trainCount + validCount));
         test = filter usable
                  (jsSlice windowRows (trainCount + validCount)
                     (trainCount + validCount + testCount))
     in if length train < 200 \<or> length valid < 50 \<or> length test < 50 then Inr None
        else
         (let predictProb = fitProb train valid;
              validProbs = map predictProb valid;
              tuning = tuningTable valid validProbs
          in case tuning of
               [] \<Rightarrow> Inl TypeError
             | best # _ \<Rightarrow>
                (let testProbs = map predictProb test;
                     decision = decisionPnl test testProbs (fst best)
                 in Inr (Some
                      \<lparr>threshold = fst best,
                       trainRows = length train,
                       validRows = length valid,
                       testRows = length test,
                       validBestMeanRelativePnl = meanRelativePnl (snd best),
                       testDecision = decision\<rparr>))))"

definition trainCount :: nat where "trainCount = 1400"
definition validCount :: nat where "validCount = 300"
definition testCount :: nat where "testCount = 250"
definition stride :: nat where "stride = 150"
definition required :: nat where "required = trainCount + validCount + testCount"

text \<open>
  An entry of the report's window list. \<open>startTs\<close> and \<open>endTs\<close> hold the epoch
  milliseconds of the first and last row of the window, which the source renders as
  ISO-8601 strings.
\<close>

record window =
  windowIndex :: nat
  startTs :: real
  endTs :: real
  windowResultOf :: windowResult

text \<open>
  The loop \<open>for (start = 0; start + required <= allRows.length; start += stride)\<close>
  with the list of windows pushed so far.
\<close>

function walkForwardFrom ::
    "(prow list \<Rightarrow> prow list \<Rightarrow> prow \<Rightarrow> real) \<Rightarrow> prow list \<Rightarrow> nat \<Rightarrow> window list
      \<Rightarrow> jsError + window list" where
  "walkForwardFrom fitProb allRows start windows =
    (if start + required \<le> length allRows then
       (case runWindow fitProb (jsSlice allRows start (start + required))
               trainCount validCount testCount of
          Inl e \<Rightarrow> Inl e
        | Inr None \<Rightarrow> walkForwardFrom fitProb allRows (start + stride) windows
        | Inr (Some result) \<Rightarrow>
            walkForwardFrom fitProb allRows (start + stride)
              (windows @
                 [\<lparr>windowIndex = length windows + 1,
                   startTs = decisionTsMs (jsSlice allRows start (start + required) ! 0),
                   endTs = decisionTsMs
                     (jsSlice allRows start (start + required)
                        ! (length (jsSlice allRows start (start + required)) - 1)),
                   windowResultOf = result\<rparr>]))
     else Inr windows)"
  by pat_completeness auto
termination
  by (relation "measure (\<lambda>(fitProb, allRows, start, windows). Suc (length allRows) - start)")
     (auto simp: required_def stride_def)

definition walkForward ::
    "(prow list \<Rightarrow> prow list \<Rightarrow> prow \<Rightarrow> real) \<Rightarrow> prow list \<Rightarrow> jsError + window list" where
  "walkForward fitProb allRows = walkForwardFrom fitProb allRows 0 []"

text \<open>
  The specification's wording of the loop: the starting offsets, multiples of the stride,
  at which a full window fits, and what a window at an offset contributes.
\<close>

definition windowStarts :: "nat \<Rightarrow> nat list" where
  "windowStarts n = filter (\<lambda>s. s + required \<le> n) (map (\<lambda>k. k * stride) [0..<Suc n])"

definition windowOutcome ::
    "(prow list \<Rightarrow> prow list \<Rightarrow> prow \<Rightarrow> real) \<Rightarrow> prow list \<Rightarrow> nat \<Rightarrow> windowResult option" where
  "windowOutcome fitProb allRows s =
    (case runWindow fitProb (jsSlice allRows s (s + required))
            trainCount validCount testCount of
       Inl e \<Rightarrow> None
     | Inr r \<Rightarrow> r)"

section \<open>Example inputs\<close>

definition capRow :: row where
  "capRow = \<lparr>decisionTs = Num 0, expectedEdgeAtDecision = FNum 0.02,
     targetContractsAtDecision = FNum 5, minKernelContractsAtDecision = FNum 3,
     leg1ExpiresAt = None, leg2ExpiresAt = None, oppLeg1ExpiresAt = None, oppLeg2ExpiresAt = None\<rparr>"

definition mkRow :: "real \<Rightarrow> field \<Rightarrow> field \<Rightarrow> row" where
  "mkRow ts edge cap =
    \<lparr>decisionTs = Num ts, expectedEdgeAtDecision = edge,
     targetContractsAtDecision = cap, minKernelContractsAtDecision = FAbsent,
     leg1ExpiresAt = None, leg2ExpiresAt = None,
     oppLeg1ExpiresAt = None, oppLeg2ExpiresAt = None\<rparr>"

definition seriesA :: "row list" where
  "seriesA = [mkRow 0 (FNum 0.02) (FNum 100),
              mkRow (30 * 60 * 1000) (FNum 0.05) (FNum 100),
              mkRow (90 * 60 * 1000) (FNum 0.01) (FNum 100)]"

definition seriesB :: "row list" where
  "seriesB = [mkRow 0 (FNum 0.02) (FNum 100),
              mkRow (30 * 60 * 1000) FNonFinite (FNum 100)]"

definition mkProw :: "real option \<Rightarrow> prow" where
  "mkProw target =
    \<lparr>decisionTsMs = 0, regTarget = target, censored = False,
     segmentKey = ''other::unknown''\<rparr>"

definition rowsC :: "prow list" where
  "rowsC = [mkProw (Some 10), mkProw (Some (- 5)), mkProw (Some 20)]"

definition probsC :: "real list" where
  "probsC = [0.9, 0.3, 0.6]"

definition probsTie :: "real list" where
  "probsTie = [0.9, 0.9, 0.9]"

text \<open>A classifier that gives every row the probability one half.\<close>

definition constProb :: "prow list \<Rightarrow> prow list \<Rightarrow> prow \<Rightarrow> real" where
  "constProb train valid r = 0.5"


section \<open>Resolved capacity\<close>

lemma resolveCapacity_cases:
  "resolveCapacity r =
    (case (safeNum (targetContractsAtDecision r), safeNum (minKernelContractsAtDecision r)) of
       (None, None) \<Rightarrow> None
     | (Some a, None) \<Rightarrow> (if 0 < a then Some a else None)
     | (None, Some b) \<Rightarrow> (if 0 < b then Some b else None)
     | (Some a, Some b) \<Rightarrow>
         (if 0 < a \<and> 0 < b then Some (min a b)
          else if 0 < a then Some a
          else if 0 < b then Some b
          else None))"
  by (cases "safeNum (targetContractsAtDecision r)"; cases "safeNum (minKernelContractsAtDecision r)")
     (simp_all add: resolveCapacity_def del: set_filter)

lemma positiveCandidates_cases:
  "positiveCandidates r =
    (case safeNum (targetContractsAtDecision r) of None \<Rightarrow> {} | Some a \<Rightarrow> if 0 < a then {a} else {})
    \<union> (case safeNum (minKernelContractsAtDecision r) of None \<Rightarrow> {} | Some b \<Rightarrow> if 0 < b then {b} else {})"
  by (auto simp: positiveCandidates_def split: option.splits)

text \<open>
  Claim C5. For every row, \<open>resolveCapacity\<close> returns the minimum of those of the two
  candidate fields that parse to positive finite numbers, \<open>null\<close> when neither does;
  a non-null result is positive (and finite, being a real).
\<close>

theorem resolveCapacity_min_positive:
  "resolveCapacity r = resolvedCapacitySpec r
   \<and> (\<forall>c. resolveCapacity r = Some c \<longrightarrow> 0 < c)"
  unfolding resolvedCapacitySpec_def positiveCandidates_cases resolveCapacity_cases
  by (auto split: option.splits simp: min_def)

theorem resolveCapacity_min_positive_witness:
  "resolveCapacity capRow = Some 3 \<and> resolvedCapacitySpec capRow = Some 3 \<and> (0::real) < 3"
proof -
  have c: "resolveCapacity capRow = Some 3"
    by (simp add: resolveCapacity_cases capRow_def)
  from resolveCapacity_min_positive [of capRow] c show ?thesis by simp
qed

section \<open>Resolution phases\<close>

lemma resolvePhaseKey_Num:
  "resolvePhaseKey (Some (Num h)) =
    (if 72 \<le> h \<and> h < 168 then Some T_7d_3d
     else if 24 \<le> h \<and> h < 72 then Some T_3d_1d
     else if 6 \<le> h \<and> h < 24 then Some T_24h_6h
     else if 1 \<le> h \<and> h < 6 then Some T_6h_1h
     else if 0 \<le> h \<and> h < 1 then Some T_1h_close
     else None)"
  by (simp add: resolvePhaseKey_def RESOLUTION_PHASES_def)

lemma filter_single_ex1:
  assumes "filter P xs = [x]"
  shows "\<exists>!p. p \<in> set xs \<and> P p"
proof -
  have "set (filter P xs) = {x}" using assms by simp
  then have "\<And>p. p \<in> set (filter P xs) \<longleftrightarrow> p = x" by simp
  then have "\<And>p. (p \<in> set xs \<and> P p) \<longleftrightarrow> p = x" by simp
  then show ?thesis by (intro ex1I [of _ x]) simp_all
qed

lemma phase_filter:
  assumes "0 \<le> h" "h < 168"
  shows "\<exists>b. filter (\<lambda>p. minHours p \<le> h \<and> h < maxHours p) RESOLUTION_PHASES = [b]"
proof -
  consider "72 \<le> h" | "24 \<le> h" "h < 72" | "6 \<le> h" "h < 24" | "1 \<le> h" "h < 6" | "h < 1"
    by linarith
  then show ?thesis
    using assms by cases (simp_all add: RESOLUTION_PHASES_def)
qed

lemma phase_unique:
  assumes "0 \<le> h" "h < 168"
  shows "\<exists>!p. p \<in> set RESOLUTION_PHASES \<and> minHours p \<le> h \<and> h < maxHours p"
proof -
  from phase_filter [OF assms] obtain b
    where "filter (\<lambda>p. minHours p \<le> h \<and> h < maxHours p) RESOLUTION_PHASES = [b]" ..
  then show ?thesis by (rule filter_single_ex1)
qed

text \<open>
  Claim C6. A \<open>null\<close> (or \<open>NaN\<close>) time to resolution has no phase; hours in
  [72,168), [24,72), [6,24), [1,6), [0,1) get the five named phases in this order; every
  value in [0,168) lies in the interval of exactly one table entry, whose key is the phase
  returned; values below 0 or from 168 on have no phase; the five keys are distinct.
\<close>

theorem phase_partition:
  "resolvePhaseKey None = None
   \<and> resolvePhaseKey (Some NaN) = None
   \<and> (\<forall>h. resolvePhaseKey (Some (Num h)) =
        (if 72 \<le> h \<and> h < 168 then Some T_7d_3d
         else if 24 \<le> h \<and> h < 72 then Some T_3d_1d
         else if 6 \<le> h \<and> h < 24 then Some T_24h_6h
         else if 1 \<le> h \<and> h < 6 then Some T_6h_1h
         else if 0 \<le> h \<and> h < 1 then Some T_1h_close
         else None))
   \<and> (\<forall>h. 0 \<le> h \<and> h < 168 \<longrightarrow>
        (\<exists>!p. p \<in> set RESOLUTION_PHASES \<and> minHours p \<le> h \<and> h < maxHours p)
        \<and> (\<exists>p \<in> set RESOLUTION_PHASES. minHours p \<le> h \<and> h < maxHours p
              \<and> resolvePhaseKey (Some (Num h)) = Some (phaseKey p)))
   \<and> (\<forall>h. h < 0 \<or> 168 \<le> h \<longrightarrow> resolvePhaseKey (Some (Num h)) = None)
   \<and> distinct (map phaseKey RESOLUTION_PHASES)"
proof (intro conjI allI impI)
  show "resolvePhaseKey None = None" by (simp add: resolvePhaseKey_def)
  show "resolvePhaseKey (Some NaN) = None" by (simp add: resolvePhaseKey_def RESOLUTION_PHASES_def)
  show "distinct (map phaseKey RESOLUTION_PHASES)" by (simp add: RESOLUTION_PHASES_def)
next
  fix h :: real
  show "resolvePhaseKey (Some (Num h)) =
        (if 72 \<le> h \<and> h < 168 then Some T_7d_3d
         else if 24 \<le> h \<and> h < 72 then Some T_3d_1d
         else if 6 \<le> h \<and> h < 24 then Some T_24h_6h
         else if 1 \<le> h \<and> h < 6 then Some T_6h_1h
         else if 0 \<le> h \<and> h < 1 then Some T_1h_close
         else None)" by (rule resolvePhaseKey_Num)
next
  fix h :: real assume "0 \<le> h \<and> h < 168"
  then show "\<exists>!p. p \<in> set RESOLUTION_PHASES \<and> minHours p \<le> h \<and> h < maxHours p"
    using phase_unique by blast
next
  fix h :: real assume h: "0 \<le> h \<and> h < 168"
  then consider "72 \<le> h" | "24 \<le> h" "h < 72" | "6 \<le> h" "h < 24" | "1 \<le> h" "h < 6" | "h < 1"
    by linarith
  then show "\<exists>p \<in> set RESOLUTION_PHASES. minHours p \<le> h \<and> h < maxHours p
              \<and> resolvePhaseKey (Some (Num h)) = Some (phaseKey p)"
    using h by cases (simp_all add: RESOLUTION_PHASES_def resolvePhaseKey_Num)
next
  fix h :: real assume "h < 0 \<or> 168 \<le> h"
  then show "resolvePhaseKey (Some (Num h)) = None"
    by (auto simp: resolvePhaseKey_Num)
qed

theorem phase_partition_witness:
  "(0::real) \<le> 30 \<and> (30::real) < 168
   \<and> (\<exists>!p. p \<in> set RESOLUTION_PHASES \<and> minHours p \<le> 30 \<and> 30 < maxHours p)
   \<and> resolvePhaseKey (Some (Num 30)) = Some T_3d_1d
   \<and> ((200::real) < 0 \<or> (168::real) \<le> 200) \<and> resolvePhaseKey (Some (Num 200)) = None"
proof -
  have h: "(0::real) \<le> 30 \<and> (30::real) < 168" by simp
  have g: "(200::real) < 0 \<or> (168::real) \<le> 200" by simp
  note inside = phase_partition [THEN conjunct2, THEN conjunct2, THEN conjunct2, THEN conjunct1,
      rule_format, OF h]
  note outside = phase_partition [THEN conjunct2, THEN conjunct2, THEN conjunct2, THEN conjunct2,
      THEN conjunct1, rule_format, OF g]
  have k: "resolvePhaseKey (Some (Num 30)) = Some T_3d_1d"
    using phase_partition [THEN conjunct2, THEN conjunct2, THEN conjunct1, rule_format, of 30]
    by simp
  note u = inside [THEN conjunct1]
  show ?thesis
    by (intro conjI) (rule h [THEN conjunct1] h [THEN conjunct2] u k g outside)+
qed

section \<open>Resolution-anchored labels\<close>

lemma resLabel_policy_fields:
  assumes "buildResolutionAnchoredLabels seq idx resolutionTs = Inr (Some l)"
  shows "buyNowBeatsWaitWindow l =
           (case deltaNetPnlPolicyWindowAtNowSize l of None \<Rightarrow> None | Some d \<Rightarrow> Some (d \<le> 0))
         \<and> labelCensoredPolicyWindow l = (deltaNetPnlPolicyWindowAtNowSize l = None)"
  using assms
  by (auto simp: buildResolutionAnchoredLabels_def Let_def split: if_splits option.splits)

lemma seriesA_label:
  "\<exists>l. buildResolutionAnchoredLabels seriesA 0 (parseResolutionTs (seriesA ! 0)) = Inr (Some l)
     \<and> deltaNetPnlPolicyWindowAtNowSize l = Some 3"
  by (simp add: buildResolutionAnchoredLabels_def resCandidates_def
      scanUntil_def resWindowEndTs_def MAX_MODEL_WINDOW_MS_def parseResolutionTs_def
      ttrHoursAt_def resolvePhaseKey_def resolvePolicyWindowHours_def resStep_def
      resolveCapacity_cases resAcc0_def seriesA_def mkRow_def Let_def)

text \<open>
  Claim C1. In every label that \<open>buildResolutionAnchoredLabels\<close> returns, for any
  series, row and resolution timestamp, \<open>buyNowBeatsWaitWindow\<close> is \<open>delta \<le> 0\<close>
  when \<open>deltaNetPnlPolicyWindowAtNowSize\<close> is the number \<open>delta\<close>, and \<open>null\<close>
  when the delta is \<open>null\<close>.
\<close>

theorem buyNowBeatsWaitWindow_polarity:
  assumes "buildResolutionAnchoredLabels seq idx resolutionTs = Inr (Some l)"
  shows "buyNowBeatsWaitWindow l =
           (case deltaNetPnlPolicyWindowAtNowSize l of
              None \<Rightarrow> None
            | Some delta \<Rightarrow> Some (delta \<le> 0))"
  using resLabel_policy_fields [OF assms] by simp

theorem buyNowBeatsWaitWindow_polarity_witness:
  "\<exists>l. buildResolutionAnchoredLabels seriesA 0 (parseResolutionTs (seriesA ! 0)) = Inr (Some l)
     \<and> deltaNetPnlPolicyWindowAtNowSize l = Some 3
     \<and> buyNowBeatsWaitWindow l = Some False"
proof -
  from seriesA_label obtain l where
    a: "buildResolutionAnchoredLabels seriesA 0 (parseResolutionTs (seriesA ! 0)) = Inr (Some l)"
    and c: "deltaNetPnlPolicyWindowAtNowSize l = Some 3" by blast
  from buyNowBeatsWaitWindow_polarity [OF a] c
  have "buyNowBeatsWaitWindow l = Some False" by simp
  with a c show ?thesis by blast
qed

text \<open>
  Claim C2. In every label that \<open>buildResolutionAnchoredLabels\<close> returns,
  \<open>labelCensoredPolicyWindow\<close> is true exactly when
  \<open>deltaNetPnlPolicyWindowAtNowSize\<close> is \<open>null\<close>.
\<close>

theorem censored_iff_delta_null:
  assumes "buildResolutionAnchoredLabels seq idx resolutionTs = Inr (Some l)"
  shows "labelCensoredPolicyWindow l \<longleftrightarrow> deltaNetPnlPolicyWindowAtNowSize l = None"
  using resLabel_policy_fields [OF assms] by simp

theorem censored_iff_delta_null_witness:
  "\<exists>l. buildResolutionAnchoredLabels seriesA 0 (parseResolutionTs (seriesA ! 0)) = Inr (Some l)
     \<and> deltaNetPnlPolicyWindowAtNowSize l = Some 3
     \<and> \<not> labelCensoredPolicyWindow l"
proof -
  from seriesA_label obtain l where
    a: "buildResolutionAnchoredLabels seriesA 0 (parseResolutionTs (seriesA ! 0)) = Inr (Some l)"
    and c: "deltaNetPnlPolicyWindowAtNowSize l = Some 3" by blast
  from censored_iff_delta_null [OF a] c
  have "\<not> labelCensoredPolicyWindow l" by simp
  with a c show ?thesis by blast
qed

lemma resStep_bestEdge7d:
  "bestEdge7d (resStep nowEdge nowCapacity resolutionTs pEnd acc c) =
    (case safeNum (expectedEdgeAtDecision c) of
       None \<Rightarrow> bestEdge7d acc
     | Some e \<Rightarrow> if improvesOn e (bestEdge7d acc) then Some e else bestEdge7d acc)"
  by (simp add: resStep_def Let_def split: option.splits)

lemma resStep_bestEdge7d_None:
  "bestEdge7d (resStep nowEdge nowCapacity resolutionTs pEnd acc c) = None
     \<longleftrightarrow> bestEdge7d acc = None \<and> safeNum (expectedEdgeAtDecision c) = None"
  by (cases "bestEdge7d acc") (auto simp: resStep_bestEdge7d split: option.splits)

lemma foldl_resStep_bestEdge7d_None:
  "bestEdge7d (foldl (resStep nowEdge nowCapacity resolutionTs pEnd) acc cs) = None
     \<longleftrightarrow> bestEdge7d acc = None \<and> (\<forall>c \<in> set cs. safeNum (expectedEdgeAtDecision c) = None)"
proof (induction cs arbitrary: acc)
  case Nil
  show ?case by simp
next
  case (Cons c cs)
  show ?case
    by (auto simp: Cons.IH resStep_bestEdge7d_None)
qed

text \<open>
  Claim C3, as amended. For every row of a series and any resolution timestamp,
  \<open>buildResolutionAnchoredLabels\<close> returns without an exception, and what it returns is
  \<open>null\<close> exactly when the row has no candidate in its 7-day-capped resolution window,
  or its own edge is \<open>null\<close>, or no candidate in the window has a non-null edge.
\<close>

theorem resolutionAnchored_null_cases:
  assumes "idx < length seq"
  shows "\<exists>ra. buildResolutionAnchoredLabels seq idx resolutionTs = Inr ra
     \<and> (ra = None \<longleftrightarrow>
          resCandidates seq idx resolutionTs = []
          \<or> safeNum (expectedEdgeAtDecision (seq ! idx)) = None
          \<or> (\<forall>c \<in> set (resCandidates seq idx resolutionTs).
                safeNum (expectedEdgeAtDecision c) = None))"
proof (cases "resCandidates seq idx resolutionTs = []")
  case True
  with assms show ?thesis
    by (simp add: buildResolutionAnchoredLabels_def Let_def)
next
  case nonempty: False
  show ?thesis
  proof (cases "safeNum (expectedEdgeAtDecision (seq ! idx))")
    case None
    with assms nonempty show ?thesis
      by (simp add: buildResolutionAnchoredLabels_def Let_def)
  next
    case (Some nowEdge)
    define pEnd where "pEnd =
      jsMin (resWindowEndTs (decisionTs (seq ! idx)) resolutionTs)
        (jsAdd (decisionTs (seq ! idx))
          (jsMul (resolvePolicyWindowHours
                    (resolvePhaseKey (ttrHoursAt resolutionTs (decisionTs (seq ! idx))))
                    (ttrHoursAt resolutionTs (decisionTs (seq ! idx))))
             (Num (60 * 60 * 1000))))"
    define acc where "acc =
      foldl (resStep nowEdge (resolveCapacity (seq ! idx)) resolutionTs pEnd) resAcc0
        (resCandidates seq idx resolutionTs)"
    have key: "bestEdge7d acc = None \<longleftrightarrow>
        (\<forall>c \<in> set (resCandidates seq idx resolutionTs).
           safeNum (expectedEdgeAtDecision c) = None)"
      unfolding acc_def by (simp add: foldl_resStep_bestEdge7d_None resAcc0_def)
    show ?thesis
    proof (cases "bestEdge7d acc")
      case None
      note facts = None [unfolded acc_def pEnd_def] key [unfolded acc_def pEnd_def]
      from assms nonempty Some facts show ?thesis
        by (simp add: buildResolutionAnchoredLabels_def Let_def)
    next
      case best: (Some best)
      note facts = best [unfolded acc_def pEnd_def] key [unfolded acc_def pEnd_def]
      from assms nonempty Some facts show ?thesis
        by (simp add: buildResolutionAnchoredLabels_def Let_def)
    qed
  qed
qed

lemma seriesB_candidates:
  "resCandidates seriesB 0 (parseResolutionTs (seriesB ! 0)) = [mkRow (30 * 60 * 1000) FNonFinite (FNum 100)]"
  by (simp add: resCandidates_def scanUntil_def resWindowEndTs_def MAX_MODEL_WINDOW_MS_def
      parseResolutionTs_def seriesB_def mkRow_def)

text \<open>
  The claim as first stated names only the first two cases. In \<open>seriesB\<close> the first
  row has an edge and one candidate in its window, the candidate's edge does not parse,
  and the label is \<open>null\<close>.
\<close>

theorem resolutionAnchored_null_counterexample:
  "resCandidates seriesB 0 (parseResolutionTs (seriesB ! 0)) \<noteq> []
   \<and> safeNum (expectedEdgeAtDecision (seriesB ! 0)) \<noteq> None
   \<and> buildResolutionAnchoredLabels seriesB 0 (parseResolutionTs (seriesB ! 0)) = Inr None"
  by (simp add: buildResolutionAnchoredLabels_def resCandidates_def
      scanUntil_def resWindowEndTs_def MAX_MODEL_WINDOW_MS_def parseResolutionTs_def
      ttrHoursAt_def resolvePhaseKey_def resolvePolicyWindowHours_def resStep_def
      resolveCapacity_cases resAcc0_def seriesB_def mkRow_def Let_def)

theorem resolutionAnchored_null_cases_witness:
  "(0::nat) < length seriesB
   \<and> resCandidates seriesB 0 (parseResolutionTs (seriesB ! 0))
       = [mkRow (30 * 60 * 1000) FNonFinite (FNum 100)]
   \<and> safeNum (expectedEdgeAtDecision (mkRow (30 * 60 * 1000) FNonFinite (FNum 100))) = None
   \<and> buildResolutionAnchoredLabels seriesB 0 (parseResolutionTs (seriesB ! 0)) = Inr None"
proof -
  have h: "(0::nat) < length seriesB" by (simp add: seriesB_def)
  have e: "safeNum (expectedEdgeAtDecision (mkRow (30 * 60 * 1000) FNonFinite (FNum 100))) = None"
    by (simp add: mkRow_def)
  have c: "\<forall>c \<in> set (resCandidates seriesB 0 (parseResolutionTs (seriesB ! 0))).
                safeNum (expectedEdgeAtDecision c) = None"
    by (simp add: seriesB_candidates) (simp add: mkRow_def)
  from resolutionAnchored_null_cases [OF h, of "parseResolutionTs (seriesB ! 0)"] c
  have "buildResolutionAnchoredLabels seriesB 0 (parseResolutionTs (seriesB ! 0)) = Inr None"
    by blast
  with h e seriesB_candidates show ?thesis by blast
qed

section \<open>Decision evaluation and threshold tuning\<close>

text \<open>
  Claim C9. With probabilities [0.9, 0.3, 0.6], threshold 0.5 and targets [10, -5, 20],
  both evaluators decide [buy_now, wait, buy_now], reward [0, -5, 0] and report the mean
  relative PnL -5/3.
\<close>

theorem scenarioC_evaluation:
  "evaluateDecisions probsC 0.5 = [buy_now, wait, buy_now]
   \<and> evaluateRewards rowsC (evaluateDecisions probsC 0.5) = [Some 0, Some (- 5), Some 0]
   \<and> meanRelativePnlVsAlwaysBuyNow (evaluate rowsC probsC 0.5) = Some (- 5 / 3)
   \<and> evaluateDecisionDecisions rowsC probsC 0.5 = [buy_now, wait, buy_now]
   \<and> evaluateDecisionRewards rowsC (evaluateDecisionDecisions rowsC probsC 0.5)
       = [Some 0, Some (- 5), Some 0]
   \<and> meanRelativePnlVsAlwaysBuyNow (evaluateDecision rowsC probsC 0.5) = Some (- 5 / 3)"
  by (simp add: evaluate_def evaluateDecision_def evaluateDecisions_def evaluateRewards_def
      evaluateDecisionDecisions_def evaluateDecisionRewards_def mean_def
      rowsC_def probsC_def mkProw_def Let_def)

lemma hd_insort_key:
  "hd (insort_key f x ys) = (if ys = [] \<or> f x \<le> f (hd ys) then x else hd ys)"
  by (cases ys) simp_all

lemma sort_key_Nil_iff: "sort_key f xs = [] \<longleftrightarrow> xs = []"
  by (metis length_sort list.size(3) length_0_conv)

lemma hd_sort_key_first_min:
  assumes "xs \<noteq> []"
  shows "\<exists>i < length xs. hd (sort_key f xs) = xs ! i
           \<and> (\<forall>j < length xs. f (xs ! i) \<le> f (xs ! j))
           \<and> (\<forall>j < i. f (xs ! i) < f (xs ! j))"
  using assms
proof (induction xs)
  case Nil
  then show ?case by simp
next
  case (Cons x xs)
  show ?case
  proof (cases "xs = []")
    case True
    then show ?thesis by simp
  next
    case False
    from Cons.IH [OF False] obtain i where i: "i < length xs"
      and h: "hd (sort_key f xs) = xs ! i"
      and mn: "\<forall>j < length xs. f (xs ! i) \<le> f (xs ! j)"
      and fst: "\<forall>j < i. f (xs ! i) < f (xs ! j)" by blast
    have ne: "sort_key f xs \<noteq> []" using False by (simp add: sort_key_Nil_iff)
    have hd_eq: "hd (sort_key f (x # xs)) = (if f x \<le> f (xs ! i) then x else xs ! i)"
      using ne h by (simp add: hd_insort_key)
    show ?thesis
    proof (cases "f x \<le> f (xs ! i)")
      case True
      have "\<forall>j < length (x # xs). f ((x # xs) ! 0) \<le> f ((x # xs) ! j)"
      proof (intro allI impI)
        fix j assume "j < length (x # xs)"
        then show "f ((x # xs) ! 0) \<le> f ((x # xs) ! j)"
          using True mn by (cases j) (auto intro: order_trans)
      qed
      with True hd_eq show ?thesis
        by (intro exI [of _ 0]) simp
    next
      case False
      have a: "\<forall>j < length (x # xs). f ((x # xs) ! Suc i) \<le> f ((x # xs) ! j)"
      proof (intro allI impI)
        fix j assume "j < length (x # xs)"
        then show "f ((x # xs) ! Suc i) \<le> f ((x # xs) ! j)"
          using False mn by (cases j) auto
      qed
      have b: "\<forall>j < Suc i. f ((x # xs) ! Suc i) < f ((x # xs) ! j)"
      proof (intro allI impI)
        fix j assume "j < Suc i"
        then show "f ((x # xs) ! Suc i) < f ((x # xs) ! j)"
          using False fst by (cases j) auto
      qed
      from False hd_eq i a b show ?thesis
        by (intro exI [of _ "Suc i"]) simp
    qed
  qed
qed


lemma thresholdGrid_sorted: "sorted thresholdGrid"
  by (simp add: thresholdGrid_def)

lemma thresholdGrid_nonempty: "thresholdGrid \<noteq> []"
  by (simp add: thresholdGrid_def)

text \<open>
  Claim C4. Tuning evaluates \<open>decisionPnl\<close> on the validation rows for each of the
  seven grid thresholds and returns a grid threshold whose mean relative PnL is highest;
  among thresholds with the same highest mean it returns the lowest.
\<close>

theorem tunedThreshold_best_lowest:
  "\<exists>t. tunedThreshold rs probs = Inr t
     \<and> t \<in> set thresholdGrid
     \<and> (\<forall>u \<in> set thresholdGrid. tuningScore rs probs u \<le> tuningScore rs probs t)
     \<and> (\<forall>u \<in> set thresholdGrid.
           tuningScore rs probs u = tuningScore rs probs t \<longrightarrow> t \<le> u)
     \<and> set (tuningTable rs probs) = (\<lambda>t. (t, decisionPnl rs probs t)) ` set thresholdGrid
     \<and> length (tuningTable rs probs) = length thresholdGrid"
proof -
  define g where "g = (\<lambda>t. (t, decisionPnl rs probs t))"
  define f where "f = (\<lambda>e :: real \<times> pnl. - nullAsZero (meanRelativePnl (snd e)))"
  define xs where "xs = map g thresholdGrid"
  have tt: "tuningTable rs probs = sort_key f xs"
    by (simp add: tuningTable_def f_def xs_def g_def)
  have xs_ne: "xs \<noteq> []" by (simp add: xs_def thresholdGrid_nonempty)
  have len: "length xs = length thresholdGrid" by (simp add: xs_def)
  from hd_sort_key_first_min [OF xs_ne, of f] obtain i where i: "i < length xs"
    and h: "hd (sort_key f xs) = xs ! i"
    and mn: "\<forall>j < length xs. f (xs ! i) \<le> f (xs ! j)"
    and fst: "\<forall>j < i. f (xs ! i) < f (xs ! j)" by blast
  have fx: "\<And>j. j < length thresholdGrid \<Longrightarrow>
      f (xs ! j) = - tuningScore rs probs (thresholdGrid ! j)"
    by (simp add: xs_def f_def g_def tuningScore_def)
  have ne: "sort_key f xs \<noteq> []" using xs_ne by (simp add: sort_key_Nil_iff)
  then obtain e es where es: "sort_key f xs = e # es" by (cases "sort_key f xs") auto
  with h have e: "e = xs ! i" by simp
  have "fst (xs ! i) = thresholdGrid ! i"
    using i len by (simp add: xs_def g_def)
  then have t: "tunedThreshold rs probs = Inr (thresholdGrid ! i)"
    unfolding tunedThreshold_def tt es e by simp
  have mem: "thresholdGrid ! i \<in> set thresholdGrid" using i len by simp
  have best: "\<forall>u \<in> set thresholdGrid.
      tuningScore rs probs u \<le> tuningScore rs probs (thresholdGrid ! i)"
  proof
    fix u assume "u \<in> set thresholdGrid"
    then obtain j where j: "j < length thresholdGrid" "u = thresholdGrid ! j"
      by (auto simp: in_set_conv_nth)
    with mn len have "f (xs ! i) \<le> f (xs ! j)" by simp
    with i len j show "tuningScore rs probs u \<le> tuningScore rs probs (thresholdGrid ! i)"
      by (simp add: fx)
  qed
  have tie: "\<forall>u \<in> set thresholdGrid.
      tuningScore rs probs u = tuningScore rs probs (thresholdGrid ! i)
        \<longrightarrow> thresholdGrid ! i \<le> u"
  proof (intro ballI impI)
    fix u assume "u \<in> set thresholdGrid"
      and eq: "tuningScore rs probs u = tuningScore rs probs (thresholdGrid ! i)"
    then obtain j where j: "j < length thresholdGrid" "u = thresholdGrid ! j"
      by (auto simp: in_set_conv_nth)
    have "\<not> j < i"
    proof
      assume "j < i"
      with fst have "f (xs ! i) < f (xs ! j)" by simp
      with i len j eq show False by (simp add: fx)
    qed
    then have "i \<le> j" by simp
    with thresholdGrid_sorted j show "thresholdGrid ! i \<le> u"
      by (simp add: sorted_nth_mono)
  qed
  have st: "set (tuningTable rs probs) = (\<lambda>t. (t, decisionPnl rs probs t)) ` set thresholdGrid"
    by (simp add: tt xs_def g_def)
  have ln: "length (tuningTable rs probs) = length thresholdGrid"
    by (simp add: tt xs_def)
  from t mem best tie st ln show ?thesis by blast
qed

lemma tie_scores:
  "u \<in> set thresholdGrid \<Longrightarrow> tuningScore rowsC probsTie u = 0"
  by (auto simp: thresholdGrid_def tuningScore_def decisionPnl_def pnlRewards_def mean_def
      rowsC_def probsTie_def mkProw_def Let_def)

theorem tunedThreshold_best_lowest_witness:
  "tunedThreshold rowsC probsTie = Inr 0.35
   \<and> tuningScore rowsC probsTie 0.35 = 0 \<and> tuningScore rowsC probsTie 0.65 = 0"
proof -
  from tunedThreshold_best_lowest [of rowsC probsTie] obtain t where
    t: "tunedThreshold rowsC probsTie = Inr t" and mem: "t \<in> set thresholdGrid"
    and tie: "\<forall>u \<in> set thresholdGrid.
           tuningScore rowsC probsTie u = tuningScore rowsC probsTie t \<longrightarrow> t \<le> u"
    by blast
  have a: "(0.35::real) \<in> set thresholdGrid" and b: "(0.65::real) \<in> set thresholdGrid"
    by (simp_all add: thresholdGrid_def)
  from tie_scores [OF a] tie_scores [OF mem]
  have "tuningScore rowsC probsTie 0.35 = tuningScore rowsC probsTie t" by simp
  with tie a have "t \<le> 0.35" by blast
  moreover from mem have "0.35 \<le> t" by (auto simp: thresholdGrid_def)
  ultimately have "t = 0.35" by simp
  with t tie_scores [OF a] tie_scores [OF b] show ?thesis by simp
qed

section \<open>Walk-forward windows\<close>

lemma tuningTable_nonempty: "tuningTable rs probs \<noteq> []"
  by (simp add: tuningTable_def sort_key_Nil_iff thresholdGrid_nonempty)

lemma runWindow_total: "\<exists>r. runWindow fitProb windowRows tc vc tsc = Inr r"
  by (auto simp: runWindow_def Let_def tuningTable_nonempty split: list.splits)

lemma runWindow_skip:
  assumes "length (filter usable (jsSlice windowRows 0 tc)) < 200
     \<or> length (filter usable (jsSlice windowRows tc (tc + vc))) < 50
     \<or> length (filter usable (jsSlice windowRows (tc + vc) (tc + vc + tsc))) < 50"
  shows "runWindow fitProb windowRows tc vc tsc = Inr None"
  using assms by (simp add: runWindow_def Let_def)


lemma windowOutcome_runWindow:
  "runWindow fitProb (jsSlice allRows s (s + required)) trainCount validCount testCount
     = Inr (windowOutcome fitProb allRows s)"
  using runWindow_total [of fitProb "jsSlice allRows s (s + required)" trainCount validCount testCount]
  by (auto simp: windowOutcome_def)

text \<open>The starts from an offset on, in steps of the stride.\<close>

lemma starts_none:
  assumes "\<not> start + required \<le> n"
  shows "filter (\<lambda>s. s + required \<le> n) (map (\<lambda>k. start + k * stride) [0..<m]) = []"
  using assms by (auto simp: filter_empty_conv)

lemma starts_step:
  assumes "start + required \<le> n"
  shows "filter (\<lambda>s. s + required \<le> n) (map (\<lambda>k. start + k * stride) [0..<Suc n])
     = start # filter (\<lambda>s. s + required \<le> n)
                 (map (\<lambda>k. (start + stride) + k * stride) [0..<Suc n])"
proof -
  have a: "[0..<Suc n] = 0 # map Suc [0..<n]"
    by (simp add: upt_conv_Cons map_Suc_upt del: upt_Suc)
  have b: "\<not> (start + stride) + n * stride + required \<le> n"
    by (simp add: stride_def required_def trainCount_def)
  have "filter (\<lambda>s. s + required \<le> n) (map (\<lambda>k. start + k * stride) [0..<Suc n])
      = start # filter (\<lambda>s. s + required \<le> n) (map (\<lambda>k. (start + stride) + k * stride) [0..<n])"
    using assms by (simp only: a) (simp add: comp_def add.assoc)
  moreover have "filter (\<lambda>s. s + required \<le> n) (map (\<lambda>k. (start + stride) + k * stride) [0..<Suc n])
      = filter (\<lambda>s. s + required \<le> n) (map (\<lambda>k. (start + stride) + k * stride) [0..<n])"
    using b by simp
  ultimately show ?thesis by simp
qed

lemma walkForwardFrom_spec:
  "\<exists>ws'. walkForwardFrom fitProb allRows start ws = Inr ws'
     \<and> map windowResultOf ws' = map windowResultOf ws
          @ List.map_filter (windowOutcome fitProb allRows)
              (filter (\<lambda>s. s + required \<le> length allRows)
                 (map (\<lambda>k. start + k * stride) [0..<Suc (length allRows)]))
     \<and> map windowIndex ws' = map windowIndex ws @ [Suc (length ws)..<Suc (length ws')]"
proof (induction fitProb allRows start ws rule: walkForwardFrom.induct)
  case (1 fitProb allRows start windows)
  let ?n = "length allRows"
  show ?case
  proof (cases "start + required \<le> ?n")
    case False
    then show ?thesis
      by (simp add: starts_none List.map_filter_simps)
  next
    case True
    note run = windowOutcome_runWindow [of fitProb allRows start]
    show ?thesis
    proof (cases "windowOutcome fitProb allRows start")
      case None
      from "1.IH"(1) [OF True run [unfolded None]] obtain ws' where
        w: "walkForwardFrom fitProb allRows (start + stride) windows = Inr ws'"
        and r: "map windowResultOf ws' = map windowResultOf windows
          @ List.map_filter (windowOutcome fitProb allRows)
              (filter (\<lambda>s. s + required \<le> ?n)
                 (map (\<lambda>k. (start + stride) + k * stride) [0..<Suc ?n]))"
        and i: "map windowIndex ws' = map windowIndex windows
                  @ [Suc (length windows)..<Suc (length ws')]" by blast
      have "walkForwardFrom fitProb allRows start windows = Inr ws'"
        using True run None w by (subst walkForwardFrom.simps) simp
      moreover have "map windowResultOf ws' = map windowResultOf windows
          @ List.map_filter (windowOutcome fitProb allRows)
              (filter (\<lambda>s. s + required \<le> ?n) (map (\<lambda>k. start + k * stride) [0..<Suc ?n]))"
        unfolding starts_step [OF True] using r None by (simp add: List.map_filter_simps)
      ultimately show ?thesis using i by blast
    next
      case (Some result)
      let ?w = "\<lparr>windowIndex = length windows + 1,
                   startTs = decisionTsMs (jsSlice allRows start (start + required) ! 0),
                   endTs = decisionTsMs
                     (jsSlice allRows start (start + required)
                        ! (length (jsSlice allRows start (start + required)) - 1)),
                   windowResultOf = result\<rparr>"
      from "1.IH"(2) [OF True run [unfolded Some]] obtain ws' where
        w: "walkForwardFrom fitProb allRows (start + stride) (windows @ [?w]) = Inr ws'"
        and r: "map windowResultOf ws' = map windowResultOf (windows @ [?w])
          @ List.map_filter (windowOutcome fitProb allRows)
              (filter (\<lambda>s. s + required \<le> ?n)
                 (map (\<lambda>k. (start + stride) + k * stride) [0..<Suc ?n]))"
        and i: "map windowIndex ws' = map windowIndex (windows @ [?w])
                  @ [Suc (length (windows @ [?w]))..<Suc (length ws')]" by blast
      have "walkForwardFrom fitProb allRows start windows = Inr ws'"
        using True run Some w by (subst walkForwardFrom.simps) simp
      moreover have "map windowResultOf ws' = map windowResultOf windows
          @ List.map_filter (windowOutcome fitProb allRows)
              (filter (\<lambda>s. s + required \<le> ?n) (map (\<lambda>k. start + k * stride) [0..<Suc ?n]))"
        unfolding starts_step [OF True] using r Some by (simp add: List.map_filter_simps)
      moreover have "map windowIndex ws' = map windowIndex windows
                  @ [Suc (length windows)..<Suc (length ws')]"
      proof -
        from i have "length (map windowIndex ws')
            = length (map windowIndex (windows @ [?w])
                @ [Suc (length (windows @ [?w]))..<Suc (length ws')])" by (rule arg_cong)
        then have "length ws' = Suc (length windows)
            + (Suc (length ws') - Suc (Suc (length windows)))" by simp
        then have "Suc (length windows) \<le> length ws'" by linarith
        then have "[Suc (length windows)..<Suc (length ws')]
            = Suc (length windows) # [Suc (Suc (length windows))..<Suc (length ws')]"
          by (simp add: upt_conv_Cons del: upt_Suc)
        with i show ?thesis by simp
      qed
      ultimately show ?thesis by blast
    qed
  qed
qed


lemma runWindow_run:
  assumes "\<not> (length (filter usable (jsSlice windowRows 0 tc)) < 200
     \<or> length (filter usable (jsSlice windowRows tc (tc + vc))) < 50
     \<or> length (filter usable (jsSlice windowRows (tc + vc) (tc + vc + tsc))) < 50)"
  shows "\<exists>res. runWindow fitProb windowRows tc vc tsc = Inr (Some res)"
  using assms
  by (auto simp: runWindow_def Let_def tuningTable_nonempty split: list.splits)

text \<open>
  Claim C8. A window whose filtered train, valid or test slice has fewer than 200, 50 or
  50 rows makes \<open>runWindow\<close> return \<open>null\<close>; \<open>runWindow\<close> never throws; and the
  walk-forward loop ends without an error with exactly the non-null results of the
  windows at the offsets where a full window fits, in order and numbered from 1, so a
  skipped window is left out and the others are still processed.
\<close>

theorem thin_window_skipped:
  "(length (filter usable (jsSlice windowRows 0 tc)) < 200
     \<or> length (filter usable (jsSlice windowRows tc (tc + vc))) < 50
     \<or> length (filter usable (jsSlice windowRows (tc + vc) (tc + vc + tsc))) < 50
    \<longrightarrow> runWindow fitProb windowRows tc vc tsc = Inr None)
   \<and> (\<exists>r. runWindow fitProb windowRows tc vc tsc = Inr r)
   \<and> (\<exists>ws. walkForward fitProb allRows = Inr ws
         \<and> map windowResultOf ws
             = List.map_filter (windowOutcome fitProb allRows) (windowStarts (length allRows))
         \<and> map windowIndex ws = [1..<Suc (length ws)])"
proof (intro conjI impI)
  assume "length (filter usable (jsSlice windowRows 0 tc)) < 200
     \<or> length (filter usable (jsSlice windowRows tc (tc + vc))) < 50
     \<or> length (filter usable (jsSlice windowRows (tc + vc) (tc + vc + tsc))) < 50"
  then show "runWindow fitProb windowRows tc vc tsc = Inr None" by (rule runWindow_skip)
next
  show "\<exists>r. runWindow fitProb windowRows tc vc tsc = Inr r" by (rule runWindow_total)
next
  from walkForwardFrom_spec [of fitProb allRows 0 "[]"]
  show "\<exists>ws. walkForward fitProb allRows = Inr ws
         \<and> map windowResultOf ws
             = List.map_filter (windowOutcome fitProb allRows) (windowStarts (length allRows))
         \<and> map windowIndex ws = [1..<Suc (length ws)]"
    by (simp add: walkForward_def windowStarts_def)
qed

theorem thin_window_skipped_witness:
  "length (filter usable (jsSlice [mkProw None] 0 trainCount)) < 200
   \<and> runWindow constProb [mkProw None] trainCount validCount testCount = Inr None"
proof -
  have h: "length (filter usable (jsSlice [mkProw None] 0 trainCount)) < 200"
    by (simp add: jsSlice_def trainCount_def usable_def mkProw_def)
  then have "length (filter usable (jsSlice [mkProw None] 0 trainCount)) < 200
     \<or> length (filter usable (jsSlice [mkProw None] trainCount (trainCount + validCount))) < 50
     \<or> length (filter usable
          (jsSlice [mkProw None] (trainCount + validCount)
             (trainCount + validCount + testCount))) < 50" by (rule disjI1)
  from thin_window_skipped [of "[mkProw None]" trainCount validCount testCount constProb,
      THEN conjunct1, rule_format, OF this] h
  show ?thesis by (rule conjI [rotated])
qed


end
